theory Spec2Isabelle
  imports Complex_Main
begin

section \<open>Numbers and the physics state of the scroll view\<close>

text \<open>
  The scroll view keeps its scrolling state in the object \<^verbatim>\<open>this._scroll\<close>. A JavaScript
  number is modelled as a real: the development follows the finite numbers, and the places
  where the source would read \<^verbatim>\<open>undefined\<close> and continue with NaN are made explicit as
  error values further down. The particle of the physics engine is represented by the two
  values the source reads and writes through \<^verbatim>\<open>getPosition1D\<close>/\<^verbatim>\<open>setPosition1D\<close> and
  \<^verbatim>\<open>setVelocity1D\<close>.

  \<^verbatim>\<open>boundsReached\<close> is the bit mask of the source (NONE 0, FIRST 1, LAST 2, BOTH 3). Before
  the first layout pass the field is \<^verbatim>\<open>undefined\<close>, and \<^verbatim>\<open>undefined & m\<close> is 0, as for NONE.
\<close>

unbundle bit_operations_syntax

definition NONE :: nat where "NONE = 0"
definition FIRST :: nat where "FIRST = 1"
definition LAST :: nat where "LAST = 2"
definition BOTH :: nat where "BOTH = 3"

text \<open>The truth value of the JavaScript expression \<^verbatim>\<open>boundsReached & mask\<close>.\<close>

definition reached :: "nat \<Rightarrow> nat \<Rightarrow> bool" where
  "reached b m = (b AND m \<noteq> 0)"

record scroll =
  moveStart :: "real option"
  moveOffset :: real
  scrollDelta :: real
  position :: real
  velocity :: real
  boundsReached :: nat
  lastScrollOffset :: real

text \<open>
  The input events. A sync is either the touch sync or the scroll (wheel) sync of the view;
  the handlers do nothing for any other sender. A sample (\<^verbatim>\<open>event.position\<close>,
  \<^verbatim>\<open>event.delta\<close>, \<^verbatim>\<open>event.velocity\<close>) is a scalar or a two-component array indexed by
  the scroll direction.
\<close>

datatype sync = TouchSync | ScrollSync | OtherSync

datatype axis = X | Y

datatype sample = Scalar real | Vector real real

fun pick :: "axis \<Rightarrow> sample \<Rightarrow> real" where
  "pick _ (Scalar v) = v"
| "pick X (Vector x y) = x"
| "pick Y (Vector x y) = y"

fun axis_index :: "axis \<Rightarrow> nat" where
  "axis_index X = 0"
| "axis_index Y = 1"

text \<open>
  \<^verbatim>\<open>_moveUpdate(sync, event)\<close>. For the touch sync the source reads
  \<^verbatim>\<open>event.position[direction]\<close> and subtracts \<^verbatim>\<open>moveStart\<close>; with no recorded start the
  difference is not a number, which the model reports as \<open>None\<close>. For the wheel sync the
  delta is added to the pending \<^verbatim>\<open>scrollDelta\<close> and the particle is stopped.
\<close>

record event =
  ev_position :: "real \<times> real"
  ev_delta :: sample

definition moveUpdate :: "axis \<Rightarrow> sync \<Rightarrow> event \<Rightarrow> scroll \<Rightarrow> scroll option" where
  "moveUpdate dir sy e s =
     (case sy of
        TouchSync \<Rightarrow>
          (case moveStart s of
             None \<Rightarrow> None
           | Some st \<Rightarrow>
               Some (s\<lparr>moveOffset :=
                        pick dir (Vector (fst (ev_position e)) (snd (ev_position e))) - st\<rparr>))
      | ScrollSync \<Rightarrow>
          Some (s\<lparr>scrollDelta := scrollDelta s + pick dir (ev_delta e), velocity := 0\<rparr>)
      | OtherSync \<Rightarrow> Some s)"

text \<open>\<^verbatim>\<open>_getParticlePosition\<close>: \<^verbatim>\<open>Math.round(pos / r) * r\<close>; \<^verbatim>\<open>Math.round\<close> is
  \<open>\<lfloor>x + 1/2\<rfloor>\<close>, which is \<^const>\<open>round\<close>. With \<open>r = 0\<close> the source yields NaN, so the
  theorems that speak about the rounded value assume \<open>r \<noteq> 0\<close>.\<close>

definition getParticlePosition :: "real \<Rightarrow> scroll \<Rightarrow> real" where
  "getParticlePosition r s = of_int (round (position s / r)) * r"

text \<open>\<^verbatim>\<open>_getScrollOffset\<close>: returns the offset and the state with the wheel delta
  possibly discarded.\<close>

definition getScrollOffset :: "real \<Rightarrow> scroll \<Rightarrow> real \<times> scroll" where
  "getScrollOffset r s =
     (let s1 = (if scrollDelta s > 0 \<and> reached (boundsReached s) FIRST
                  then s\<lparr>scrollDelta := 0\<rparr>
                else if scrollDelta s < 0 \<and> reached (boundsReached s) LAST
                  then s\<lparr>scrollDelta := 0\<rparr>
                else s)
      in (getParticlePosition r s1 + moveOffset s1 + scrollDelta s1, s1))"

text \<open>\<^verbatim>\<open>_integrateScrollDelta\<close>: returns the new offset and the updated state.\<close>

definition integrateScrollDelta :: "real \<Rightarrow> scroll \<Rightarrow> real \<times> scroll" where
  "integrateScrollDelta r s =
     (let oldOffset = getParticlePosition r s in
      if scrollDelta s = 0 then (oldOffset + moveOffset s, s)
      else
        let newOffset0 = oldOffset + scrollDelta s;
            newOffset =
              (if reached (boundsReached s) FIRST then 0
               else if reached (boundsReached s) LAST
                 then max (lastScrollOffset s) newOffset0
               else newOffset0);
            s1 = s\<lparr>position := newOffset, velocity := 0, scrollDelta := 0\<rparr>
        in (newOffset + moveOffset s1, s1))"

text \<open>A run of update events of the wheel sync, delivered one after the other.\<close>

fun wheel_updates :: "axis \<Rightarrow> event list \<Rightarrow> scroll \<Rightarrow> scroll option" where
  "wheel_updates dir [] s = Some s"
| "wheel_updates dir (e # es) s =
     (case moveUpdate dir ScrollSync e s of
        None \<Rightarrow> None
      | Some s1 \<Rightarrow> wheel_updates dir es s1)"

section \<open>The view sequence, the spec window and the scroll view\<close>

text \<open>
  A render node is known by its identity only (the source compares with \<^verbatim>\<open>===\<close>), so it is a
  number. The view sequence belongs to the base controller; the scroll view holds a cursor
  into it. The sequence is modelled as the list of what \<^verbatim>\<open>get()\<close> returns at each place
  (\<open>None\<close> for a place with no item) and a cursor as an index: \<^verbatim>\<open>getPrevious()\<close> of the first
  place and \<^verbatim>\<open>getNext()\<close> of the last place are \<^verbatim>\<open>null\<close>.

  A spec of the window carries the render node it belongs to, the flag
  \<^verbatim>\<open>trueSizeRequested\<close>, and the arrays \<^verbatim>\<open>transform\<close> and \<^verbatim>\<open>size\<close>, either of which may be
  \<^verbatim>\<open>undefined\<close> (a layout node whose set has no translate has no transform). Reading a
  component of an undefined array throws a TypeError. Reading beyond the end of an array
  yields \<^verbatim>\<open>undefined\<close>; the source does not stop there: the sum of offset and size is NaN,
  every comparison with it is false, and the run goes on with NaN in the particle and in the
  offset. Such a run leaves the numbers of the model, which ends it with \<open>NotANumber\<close>; the
  statements below are about windows and runs in which every component that is read is
  there.
\<close>

datatype error = TypeError | NotANumber

type_synonym rnode = nat

record spec =
  renderNode :: rnode
  trueSizeRequested :: bool
  transform :: "real list option"
  size :: "real list option"

record scrollview =
  direction :: axis
  items :: "rnode option list"
  viewSequence :: "nat option"
  target :: "spec list"
  endReachedPrev :: bool
  scroll :: scroll

text \<open>\<^verbatim>\<open>endReachedPrev\<close> is the answer of the base controller to \<^verbatim>\<open>_nodes.endReached(true)\<close>
  during the pass.\<close>

definition item_at :: "rnode option list \<Rightarrow> nat \<Rightarrow> rnode option" where
  "item_at its c = (if c < length its then its ! c else None)"

definition getPrevious :: "nat \<Rightarrow> nat option" where
  "getPrevious c = (case c of 0 \<Rightarrow> None | Suc p \<Rightarrow> Some p)"

definition getNext :: "rnode option list \<Rightarrow> nat \<Rightarrow> nat option" where
  "getNext its c = (if Suc c < length its then Some (Suc c) else None)"

text \<open>The loop of \<^verbatim>\<open>_lookupSpecByViewSequence\<close>: the first spec of the window that belongs
  to the render node, with its index.\<close>

fun scan :: "rnode \<Rightarrow> spec list \<Rightarrow> nat \<Rightarrow> (nat \<times> spec) option" where
  "scan rn [] i = None"
| "scan rn (x # xs) i = (if renderNode x = rn then Some (i, x) else scan rn xs (Suc i))"

text \<open>\<^verbatim>\<open>_lookupSpecByViewSequence(specs, viewSequence, getIndex, startIndex)\<close>. The source
  ignores \<^verbatim>\<open>startIndex\<close>. \<open>None\<close> stands for the results \<^verbatim>\<open>-1\<close> and \<^verbatim>\<open>undefined\<close>; the first
  component is the answer for \<^verbatim>\<open>getIndex = true\<close>, the second the answer for
  \<^verbatim>\<open>getIndex = false\<close>.\<close>

definition lookupSpecByViewSequence ::
  "spec list \<Rightarrow> rnode option list \<Rightarrow> nat option \<Rightarrow> (nat \<times> spec) option" where
  "lookupSpecByViewSequence specs its cur =
     (case cur of
        None \<Rightarrow> None
      | Some c \<Rightarrow>
          (case item_at its c of
             None \<Rightarrow> None
           | Some rn \<Rightarrow> scan rn specs 0))"

text \<open>The two reads \<^verbatim>\<open>spec.transform[12 + direction]\<close> and \<^verbatim>\<open>spec.size[direction]\<close>, in the
  order of the source.\<close>

definition edges :: "axis \<Rightarrow> spec \<Rightarrow> error + (real \<times> real)" where
  "edges dir sp =
     (case transform sp of
        None \<Rightarrow> Inl TypeError
      | Some t \<Rightarrow>
          (case size sp of
             None \<Rightarrow> Inl TypeError
           | Some z \<Rightarrow>
               if 12 + axis_index dir < length t \<and> axis_index dir < length z
               then Inr (t ! (12 + axis_index dir), z ! axis_index dir)
               else Inl NotANumber))"

text \<open>A spec that has both arrays, with an element at the place the scroll axis reads.\<close>

definition complete :: "axis \<Rightarrow> spec \<Rightarrow> bool" where
  "complete dir sp =
     (case transform sp of
        None \<Rightarrow> False
      | Some t \<Rightarrow>
          (case size sp of
             None \<Rightarrow> False
           | Some z \<Rightarrow> 12 + axis_index dir < length t \<and> axis_index dir < length z))"

text \<open>
  The backward loop of \<^verbatim>\<open>_normalizeScrollOffset\<close> (offset at or above 0). The state of the
  loop is the anchor \<open>c\<close>, the particle position and the working offset; \<^verbatim>\<open>sequenceNode\<close> is
  the previous place of the anchor.
\<close>

fun norm_prev ::
  "spec list \<Rightarrow> rnode option list \<Rightarrow> axis \<Rightarrow> nat \<Rightarrow> real \<Rightarrow> real \<Rightarrow> error + (nat \<times> real \<times> real)" where
  "norm_prev specs its dir 0 pos off = Inr (0, pos, off)"
| "norm_prev specs its dir (Suc p) pos off =
     (case item_at its p of
        None \<Rightarrow> Inr (Suc p, pos, off)
      | Some rn \<Rightarrow>
          (case lookupSpecByViewSequence specs its (Some p) of
             None \<Rightarrow> Inr (Suc p, pos, off)
           | Some (i, sp) \<Rightarrow>
               if trueSizeRequested sp then Inr (Suc p, pos, off)
               else
                 (case edges dir sp of
                    Inl e \<Rightarrow> Inl e
                  | Inr (specOffset, specSize) \<Rightarrow>
                      if specOffset + specSize < 0 then Inr (Suc p, pos, off)
                      else norm_prev specs its dir p (pos - specSize) (off - specSize))))"

text \<open>
  The forward loop (offset below 0). \<^verbatim>\<open>prevSequenceNode\<close> and the anchor are the same place
  \<open>c\<close> at the head of every iteration; \<^verbatim>\<open>sequenceNode\<close> is its next place.
\<close>

function norm_next ::
  "spec list \<Rightarrow> rnode option list \<Rightarrow> axis \<Rightarrow> nat \<Rightarrow> real \<Rightarrow> real \<Rightarrow> error + (nat \<times> real \<times> real)" where
  "norm_next specs its dir c pos off =
     (if Suc c < length its then
        (case its ! Suc c of
           None \<Rightarrow> Inr (c, pos, off)
         | Some rn \<Rightarrow>
             (case lookupSpecByViewSequence specs its (Some c) of
                None \<Rightarrow> Inr (c, pos, off)
              | Some (i, prevSpec) \<Rightarrow>
                  if trueSizeRequested prevSpec then Inr (c, pos, off)
                  else
                    (case edges dir prevSpec of
                       Inl e \<Rightarrow> Inl e
                     | Inr (prevSpecOffset, prevSpecSize) \<Rightarrow>
                         if prevSpecOffset + prevSpecSize \<ge> 0 then Inr (c, pos, off)
                         else norm_next specs its dir (Suc c)
                                (pos + prevSpecSize) (off + prevSpecSize))))
      else Inr (c, pos, off))"
  by pat_completeness auto
termination
  by (relation "measure (\<lambda>(specs, its, dir, c, pos, off). length its - c)") auto

text \<open>Writing the result of a loop back into the view.\<close>

definition commit_norm :: "scrollview \<Rightarrow> nat \<times> real \<times> real \<Rightarrow> real \<times> scrollview" where
  "commit_norm v res =
     (case res of (c, pos, off) \<Rightarrow>
        (off, v\<lparr>viewSequence := Some c, scroll := (scroll v)\<lparr>position := pos\<rparr>\<rparr>))"

text \<open>\<^verbatim>\<open>_normalizeScrollOffset(size, scrollOffset)\<close>. The viewport size is the pair
  \<^verbatim>\<open>[width, height]\<close>. With an empty window and an offset below 0 the source reads
  \<^verbatim>\<open>target[-1].transform\<close>, which throws.\<close>

definition normalizeScrollOffset ::
  "real \<times> real \<Rightarrow> real \<Rightarrow> scrollview \<Rightarrow> error + (real \<times> scrollview)" where
  "normalizeScrollOffset sz scrollOffset v =
     (case viewSequence v of
        None \<Rightarrow> Inr (scrollOffset, v)
      | Some c \<Rightarrow>
          if scrollOffset \<ge> 0 then
            (case norm_prev (target v) (items v) (direction v) c
                    (position (scroll v)) scrollOffset of
               Inl e \<Rightarrow> Inl e
             | Inr res \<Rightarrow> Inr (commit_norm v res))
          else
            (case target v of
               [] \<Rightarrow> Inl TypeError
             | _ # _ \<Rightarrow>
                 (case edges (direction v) (last (target v)) of
                    Inl e \<Rightarrow> Inl e
                  | Inr (lastSpecOffset, lastSpecSize) \<Rightarrow>
                      if lastSpecOffset + lastSpecSize
                           < pick (direction v) (Vector (fst sz) (snd sz))
                      then Inr (scrollOffset, v)
                      else
                        (case norm_next (target v) (items v) (direction v) c
                                (position (scroll v)) scrollOffset of
                           Inl e \<Rightarrow> Inl e
                         | Inr res \<Rightarrow> Inr (commit_norm v res)))))"




section \<open>Auxiliary notions for the proofs about normalization\<close>

text \<open>The anchor's own spec is known, resolved and not wholly before the viewport start.\<close>

definition shown :: "spec list \<Rightarrow> rnode option list \<Rightarrow> axis \<Rightarrow> nat \<Rightarrow> bool" where
  "shown specs its dir c =
     (case lookupSpecByViewSequence specs its (Some c) of
        None \<Rightarrow> False
      | Some (i, sp) \<Rightarrow> \<not> trueSizeRequested sp
          \<and> (case edges dir sp of Inl e \<Rightarrow> False | Inr (a, z) \<Rightarrow> a + z \<ge> 0))"

text \<open>The spec at a place is known, resolved and wholly before the viewport start.\<close>

definition passed :: "spec list \<Rightarrow> rnode option list \<Rightarrow> axis \<Rightarrow> nat \<Rightarrow> bool" where
  "passed specs its dir c =
     (case lookupSpecByViewSequence specs its (Some c) of
        None \<Rightarrow> False
      | Some (i, sp) \<Rightarrow> \<not> trueSizeRequested sp
          \<and> (case edges dir sp of Inl e \<Rightarrow> False | Inr (a, z) \<Rightarrow> a + z < 0))"

text \<open>What one iteration of the forward loop decides at the anchor \<open>c\<close>: stop (\<open>None\<close>),
  throw, or move on by the size of the anchor's spec.\<close>

definition go_next :: "spec list \<Rightarrow> rnode option list \<Rightarrow> axis \<Rightarrow> nat \<Rightarrow> (error + real) option" where
  "go_next specs its dir c =
     (if Suc c < length its then
        (case its ! Suc c of
           None \<Rightarrow> None
         | Some rn \<Rightarrow>
             (case lookupSpecByViewSequence specs its (Some c) of
                None \<Rightarrow> None
              | Some (i, sp) \<Rightarrow>
                  if trueSizeRequested sp then None
                  else (case edges dir sp of
                          Inl e \<Rightarrow> Some (Inl e)
                        | Inr (a, z) \<Rightarrow> if a + z \<ge> 0 then None else Some (Inr z))))
      else None)"

text \<open>Example views: two items of height 100, laid out along the vertical axis.\<close>

definition matrix_at :: "real \<Rightarrow> real list" where
  "matrix_at y = [1, 0, 0, 0, 0, 1, 0, 0, 0, 0, 1, 0, 0, y, 0, 1]"

definition spec_at :: "rnode \<Rightarrow> real \<Rightarrow> spec" where
  "spec_at n y = \<lparr>renderNode = n, trueSizeRequested = False,
                  transform = Some (matrix_at y), size = Some [100, 100]\<rparr>"

definition rest :: scroll where
  "rest = \<lparr>moveStart = None, moveOffset = 0, scrollDelta = 0, position = 0,
            velocity = 0, boundsReached = NONE, lastScrollOffset = 0\<rparr>"

definition two_items :: scrollview where
  "two_items = \<lparr>direction = Y, items = [Some 0, Some 1], viewSequence = Some 0,
                 target = [spec_at 0 (- 120), spec_at 1 (- 20)],
                 endReachedPrev = True, scroll = rest\<rparr>"

definition bare_last :: scrollview where
  "bare_last = \<lparr>direction = Y, items = [Some 0, Some 1], viewSequence = Some 1,
                 target = [spec_at 0 0, (spec_at 1 100)\<lparr>transform := None\<rparr>],
                 endReachedPrev = True, scroll = rest\<rparr>"

definition stale_anchor :: scrollview where
  "stale_anchor = \<lparr>direction = Y, items = [Some 0, None], viewSequence = Some 1,
                    target = [spec_at 0 0], endReachedPrev = True, scroll = rest\<rparr>"

definition empty_window :: scrollview where
  "empty_window = \<lparr>direction = Y, items = [Some 0, Some 1], viewSequence = Some 0,
                     target = [], endReachedPrev = True, scroll = rest\<rparr>"


definition at_top :: scrollview where
  "at_top = \<lparr>direction = Y, items = [Some 0, Some 1], viewSequence = Some 0,
              target = [spec_at 0 0, spec_at 1 100], endReachedPrev = True, scroll = rest\<rparr>"

section \<open>Concrete states used in the examples\<close>

definition at_first :: scroll where
  "at_first = \<lparr>moveStart = None, moveOffset = 0, scrollDelta = 0, position = 5,
                velocity = 0, boundsReached = FIRST, lastScrollOffset = 0\<rparr>"

definition at_last :: scroll where
  "at_last = \<lparr>moveStart = None, moveOffset = 0, scrollDelta = 0, position = - 10,
               velocity = 0, boundsReached = LAST, lastScrollOffset = 0\<rparr>"

definition free_scroll :: scroll where
  "free_scroll = \<lparr>moveStart = None, moveOffset = 0, scrollDelta = 0, position = 1 / 10,
                   velocity = 0, boundsReached = NONE, lastScrollOffset = 0\<rparr>"

definition wheel :: "real \<Rightarrow> event" where
  "wheel d = \<lparr>ev_position = (0, 0), ev_delta = Scalar d\<rparr>"

section \<open>The layout node: values, sets and specs\<close>

text \<open>
  The layout node works on untyped JavaScript values. The model keeps the values the code
  distinguishes. An array element is \<^verbatim>\<open>undefined\<close> (\<open>Hole\<close>), NaN (\<open>NotNum\<close>) or a number. A
  property of a set or of a spec is \<^verbatim>\<open>undefined\<close>, NaN, a number, or an array; an array
  carries the identity of the object, since \<^verbatim>\<open>===\<close> on arrays compares identities, and an
  array written in place keeps its identity. The callers of the node never write into the
  arrays of a set after handing it over.
\<close>

datatype cell = Hole | NotNum | Val real

datatype jsval = Undef | NaN | Num real | Arr nat "cell list"

text \<open>Truthiness, \<^verbatim>\<open>!== undefined\<close>, \<^verbatim>\<open>===\<close>, \<^verbatim>\<open>Array.isArray\<close>.\<close>

fun truthy :: "jsval \<Rightarrow> bool" where
  "truthy Undef = False"
| "truthy NaN = False"
| "truthy (Num x) = (x \<noteq> 0)"
| "truthy (Arr r xs) = True"

fun strict_eq :: "jsval \<Rightarrow> jsval \<Rightarrow> bool" where
  "strict_eq Undef Undef = True"
| "strict_eq (Num x) (Num y) = (x = y)"
| "strict_eq (Arr r xs) (Arr r' ys) = (r = r')"
| "strict_eq _ _ = False"

fun val_of_cell :: "cell \<Rightarrow> jsval" where
  "val_of_cell Hole = Undef"
| "val_of_cell NotNum = NaN"
| "val_of_cell (Val x) = Num x"

text \<open>Reading \<^verbatim>\<open>xs[i]\<close> in an array: beyond the end the value is \<^verbatim>\<open>undefined\<close>.\<close>

definition read_cell :: "cell list \<Rightarrow> nat \<Rightarrow> cell" where
  "read_cell xs i = (if i < length xs then xs ! i else Hole)"

text \<open>Reading \<^verbatim>\<open>v[i]\<close> in a property value: a number has no indexed properties, and
  \<^verbatim>\<open>undefined[i]\<close> throws.\<close>

fun index_val :: "jsval \<Rightarrow> nat \<Rightarrow> error + cell" where
  "index_val Undef i = Inl TypeError"
| "index_val NaN i = Inr Hole"
| "index_val (Num x) i = Inr Hole"
| "index_val (Arr r xs) i = Inr (read_cell xs i)"

text \<open>Writing \<^verbatim>\<open>xs[i] = c\<close>: JavaScript extends a shorter array, leaving holes.\<close>

definition write_cell :: "cell list \<Rightarrow> nat \<Rightarrow> cell \<Rightarrow> cell list" where
  "write_cell xs i c =
     (if i < length xs then xs[i := c] else xs @ replicate (i - length xs) Hole @ [c])"

text \<open>\<^verbatim>\<open>Array.isArray(v) ? v : [v]\<close>, as the list of the elements.\<close>

fun as_array :: "jsval \<Rightarrow> cell list" where
  "as_array Undef = [Hole]"
| "as_array NaN = [NotNum]"
| "as_array (Num x) = [Val x]"
| "as_array (Arr r xs) = xs"

text \<open>\<^verbatim>\<open>from + (to - from) * tweenValue\<close> on elements: anything but two numbers gives NaN.\<close>

fun tween :: "real \<Rightarrow> cell \<Rightarrow> cell \<Rightarrow> cell" where
  "tween t (Val a) (Val b) = Val (a + (b - a) * t)"
| "tween t _ _ = NotNum"

text \<open>
  A transition description (only \<^verbatim>\<open>duration\<close> is read by the node), a set as the layout
  function passes it to \<^verbatim>\<open>set()\<close>, and the spec of a node. In a spec the properties
  size, origin, align and transform are arrays (an identity and the elements) or
  \<^verbatim>\<open>undefined\<close>: these are the only values the node and the layout functions store there.
\<close>

record transition =
  duration :: "real option"

record layout_set =
  s_size :: jsval
  s_origin :: jsval
  s_align :: jsval
  s_skew :: jsval
  s_rotate :: jsval
  s_scale :: jsval
  s_translate :: jsval
  s_opacity :: jsval
  s_hide :: "bool option"
  s_transition :: "transition option"
  s_scrollLength :: "real option"

record node_spec =
  n_renderNode :: "rnode option"
  n_opacity :: jsval
  n_size :: "(nat \<times> cell list) option"
  n_origin :: "(nat \<times> cell list) option"
  n_align :: "(nat \<times> cell list) option"
  n_hide :: "bool option"
  n_transform :: "(nat \<times> cell list) option"
  n_removed :: "bool option"

text \<open>
  The library functions \<^verbatim>\<open>Transform.translate\<close> and \<^verbatim>\<open>Transform.build\<close> are not part of the
  repository: they are parameters. Each returns the elements of a new matrix; the
  arguments of \<^verbatim>\<open>build\<close> are given in the order translate, skew, scale, rotate.
\<close>

record transform_lib =
  lib_translate :: "cell \<Rightarrow> cell \<Rightarrow> cell \<Rightarrow> cell list"
  lib_build :: "cell list \<Rightarrow> cell list \<Rightarrow> cell list \<Rightarrow> cell list \<Rightarrow> cell list"

text \<open>
  The table \<^verbatim>\<open>propertiesWithDefaults\<close>. Its arrays are objects of the module; they have the
  identities 0 to 7, and every array created later has a larger one.
\<close>

definition default_size :: jsval where "default_size = Arr 0 [Hole, Hole]"
definition default_origin :: jsval where "default_origin = Arr 1 [Val 0, Val 0]"
definition default_align :: jsval where "default_align = Arr 2 [Val 0, Val 0]"
definition default_skew :: jsval where "default_skew = Arr 3 [Val 0, Val 0, Val 0]"
definition default_rotate :: jsval where "default_rotate = Arr 4 [Val 0, Val 0, Val 0]"
definition default_scale :: jsval where "default_scale = Arr 5 [Val 1, Val 1, Val 1]"
definition default_translate :: jsval where "default_translate = Arr 6 [Val 0, Val 0, Val 0]"
definition default_opacity :: jsval where "default_opacity = Arr 7 [Val 1]"

section \<open>The layout node: state and methods\<close>

text \<open>
  A \<^verbatim>\<open>Transitionable\<close> belongs to the library. The node keeps at most one, known by its
  identity; what its \<^verbatim>\<open>get()\<close> and \<^verbatim>\<open>isActive()\<close> answer at the moment of a call is an input
  of the call (\<open>clock\<close>). The completion callbacks that \<^verbatim>\<open>set\<close> and \<^verbatim>\<open>transition\<close> hand to the
  library are unbound function expressions: the library, which does not know the node,
  cannot call them with the node as \<^verbatim>\<open>this\<close>, so their test
  \<^verbatim>\<open>this._transitionable === transitionable\<close> fails and they leave the node as it is.
\<close>

record clock =
  tweenValue :: real
  isActive :: bool

record node =
  nd_renderNode :: "rnode option"
  nd_spec :: node_spec
  specModified :: bool
  invalidated :: bool
  removing :: bool
  transitionable :: "nat option"
  originalSet :: "layout_set option"
  lastSet :: "layout_set option"
  targetSet :: "layout_set option"
  scrollLength :: "real option"

definition empty_spec :: node_spec where
  "empty_spec = \<lparr>n_renderNode = None, n_opacity = Undef, n_size = None, n_origin = None,
                  n_align = None, n_hide = None, n_transform = None, n_removed = None\<rparr>"

text \<open>The constructor \<^verbatim>\<open>LayoutNode(renderNode, spec)\<close>. The second argument is what
  \<^verbatim>\<open>LayoutUtility.cloneSpec(spec)\<close> returns when a spec is given, and \<open>None\<close> when none is.\<close>

definition LayoutNode :: "rnode option \<Rightarrow> node_spec option \<Rightarrow> node" where
  "LayoutNode rn cloned =
     \<lparr>nd_renderNode = rn,
      nd_spec = (case cloned of None \<Rightarrow> empty_spec | Some sp \<Rightarrow> sp)\<lparr>n_renderNode := rn\<rparr>,
      specModified = True, invalidated = False, removing = False,
      transitionable = None, originalSet = None, lastSet = None, targetSet = None,
      scrollLength = None\<rparr>"

text \<open>\<^verbatim>\<open>v[i]\<close> for a value that is not \<^verbatim>\<open>undefined\<close>.\<close>

fun elem :: "jsval \<Rightarrow> nat \<Rightarrow> cell" where
  "elem (Arr r xs) i = read_cell xs i"
| "elem _ i = Hole"

text \<open>\<^verbatim>\<open>v || [a, b, c]\<close>, as the elements the library will read.\<close>

definition or_default :: "jsval \<Rightarrow> cell list \<Rightarrow> cell list" where
  "or_default v d = (if truthy v then (case v of Arr r xs \<Rightarrow> xs | _ \<Rightarrow> []) else d)"

text \<open>One of the properties size, origin, align in \<^verbatim>\<open>_modifySpecFromSet\<close>: a new array of
  two elements, a missing element replaced by the default.\<close>

definition with_defaults :: "nat \<Rightarrow> jsval \<Rightarrow> jsval \<Rightarrow> (nat \<times> cell list) option" where
  "with_defaults r v d =
     (if truthy v then
        Some (r, [if elem v 0 = Hole then elem d 0 else elem v 0,
                  if elem v 1 = Hole then elem d 1 else elem v 1])
      else None)"

text \<open>\<^verbatim>\<open>_modifySpecFromSet(spec, set)\<close>; the new arrays get the identities \<open>fr\<close> to \<open>fr + 3\<close>.\<close>

definition modifySpecFromSet ::
  "transform_lib \<Rightarrow> nat \<Rightarrow> node_spec \<Rightarrow> layout_set \<Rightarrow> node_spec" where
  "modifySpecFromSet lib fr sp s =
     sp\<lparr>n_opacity := s_opacity s,
        n_size := with_defaults fr (s_size s) default_size,
        n_origin := with_defaults (fr + 1) (s_origin s) default_origin,
        n_align := with_defaults (fr + 2) (s_align s) default_align,
        n_hide := s_hide s,
        n_transform :=
          (if truthy (s_skew s) \<or> truthy (s_rotate s) \<or> truthy (s_scale s) then
             Some (fr + 3,
               lib_build lib
                 (or_default (s_translate s) [Val 0, Val 0, Val 0])
                 (or_default (s_skew s) [Val 0, Val 0, Val 0])
                 (or_default (s_scale s) [Val 1, Val 1, Val 1])
                 (or_default (s_rotate s) [Val 0, Val 0, Val 0]))
           else if truthy (s_translate s) then
             Some (fr + 3,
               lib_translate lib (elem (s_translate s) 0) (elem (s_translate s) 1)
                 (elem (s_translate s) 2))
           else None)\<rparr>"

text \<open>
  One round of the loop of \<^verbatim>\<open>_interpolateSet\<close>, for a property with default \<open>d\<close> and \<open>dims\<close>
  dimensions: the value stored in the resulting set, and whether the round computed a new
  array (and so set \<^verbatim>\<open>_specModified\<close>).
\<close>

definition interpolate_property ::
  "real \<Rightarrow> nat \<Rightarrow> jsval \<Rightarrow> nat \<Rightarrow> jsval \<Rightarrow> jsval \<Rightarrow> jsval \<times> bool" where
  "interpolate_property t r d dims fromv tov =
     (let tweenFrom = (if fromv \<noteq> Undef then fromv else d);
          tweenTo = (if tov \<noteq> Undef then tov else tweenFrom)
      in if strict_eq tweenTo tweenFrom then (tweenTo, False)
         else (Arr r (map (\<lambda>i. tween t (read_cell (as_array tweenFrom) i)
                                        (read_cell (as_array tweenTo) i)) [0..<dims]),
               True))"

text \<open>The loop over the table, and the final \<^verbatim>\<open>resultingSet.opacity = resultingSet.opacity[0]\<close>.
  The new arrays get the identities \<open>fr\<close> to \<open>fr + 7\<close>.\<close>

definition interpolate_sets ::
  "real \<Rightarrow> nat \<Rightarrow> layout_set \<Rightarrow> layout_set \<Rightarrow> error + (layout_set \<times> bool)" where
  "interpolate_sets t fr a b =
     (let size' = interpolate_property t fr default_size 2 (s_size a) (s_size b);
          origin' = interpolate_property t (fr + 1) default_origin 2 (s_origin a) (s_origin b);
          align' = interpolate_property t (fr + 2) default_align 2 (s_align a) (s_align b);
          skew' = interpolate_property t (fr + 3) default_skew 3 (s_skew a) (s_skew b);
          rotate' = interpolate_property t (fr + 4) default_rotate 3 (s_rotate a) (s_rotate b);
          scale' = interpolate_property t (fr + 5) default_scale 3 (s_scale a) (s_scale b);
          translate' = interpolate_property t (fr + 6) default_translate 3
                         (s_translate a) (s_translate b);
          opacity' = interpolate_property t (fr + 7) default_opacity 1
                       (s_opacity a) (s_opacity b)
      in case index_val (fst opacity') 0 of
           Inl e \<Rightarrow> Inl e
         | Inr c \<Rightarrow>
             Inr (\<lparr>s_size = fst size', s_origin = fst origin', s_align = fst align',
                   s_skew = fst skew', s_rotate = fst rotate', s_scale = fst scale',
                   s_translate = fst translate', s_opacity = val_of_cell c,
                   s_hide = None, s_transition = None, s_scrollLength = None\<rparr>,
                  snd size' \<or> snd origin' \<or> snd align' \<or> snd skew' \<or> snd rotate'
                  \<or> snd scale' \<or> snd translate' \<or> snd opacity'))"

text \<open>\<^verbatim>\<open>_interpolateSet()\<close>: the set to show now (possibly \<^verbatim>\<open>undefined\<close>) and the node. It
  throws when the node has no transitionable, and when there is a start but no last set.\<close>

definition interpolateSet ::
  "clock \<Rightarrow> nat \<Rightarrow> node \<Rightarrow> error + (layout_set option \<times> node)" where
  "interpolateSet ck fr n =
     (case transitionable n of
        None \<Rightarrow> Inl TypeError
      | Some tr \<Rightarrow>
          (case originalSet n of
             None \<Rightarrow> Inr (lastSet n, n)
           | Some a \<Rightarrow>
               if tweenValue ck = 1 then Inr (lastSet n, n)
               else
                 (case lastSet n of
                    None \<Rightarrow> Inl TypeError
                  | Some b \<Rightarrow>
                      (case interpolate_sets (tweenValue ck) fr a b of
                         Inl e \<Rightarrow> Inl e
                       | Inr (res, modified) \<Rightarrow>
                           Inr (Some res,
                                if modified then n\<lparr>specModified := True\<rparr> else n)))))"

text \<open>
  What \<^verbatim>\<open>getSpec\<close> hands out: the committed spec object of the node itself, or a new
  object. A call that throws has still changed the node, so every result comes with the
  node as the call left it.
\<close>

datatype spec_ref = Committed node_spec | Fresh node_spec

definition hidden :: "node \<Rightarrow> bool" where
  "hidden n = (n_hide (nd_spec n) = Some True)"

text \<open>\<^verbatim>\<open>_getFinalSpec()\<close>. The interpolation uses the identities \<open>fr\<close> to \<open>fr + 7\<close>, the new
  spec the identities \<open>fr + 8\<close> to \<open>fr + 11\<close>.\<close>

definition getFinalSpec ::
  "transform_lib \<Rightarrow> clock \<Rightarrow> nat \<Rightarrow> node \<Rightarrow> (error + spec_ref) \<times> node" where
  "getFinalSpec lib ck fr n =
     (if transitionable n \<noteq> None \<and> \<not> hidden n then
        let n1 = (if \<not> isActive ck then n\<lparr>transitionable := None\<rparr> else n);
            sp = empty_spec\<lparr>n_renderNode := n_renderNode (nd_spec n1)\<rparr>
        in case interpolateSet ck fr n1 of
             Inl e \<Rightarrow> (Inl e, n1)
           | Inr (None, n2) \<Rightarrow> (Inl TypeError, n2)
           | Inr (Some s, n2) \<Rightarrow> (Inr (Fresh (modifySpecFromSet lib (fr + 8) sp s)), n2)
      else (Inr (Committed (nd_spec n)), n))"

text \<open>\<^verbatim>\<open>getSpec()\<close>.\<close>

definition getSpec ::
  "transform_lib \<Rightarrow> clock \<Rightarrow> nat \<Rightarrow> node \<Rightarrow> (error + spec_ref) \<times> node" where
  "getSpec lib ck fr n =
     getFinalSpec lib ck fr
       (n\<lparr>specModified := False,
           nd_spec := (nd_spec n)\<lparr>n_removed := Some (\<not> invalidated n)\<rparr>\<rparr>)"

text \<open>\<^verbatim>\<open>set(set, size)\<close>. \<open>tnew\<close> is the identity of the transitionable that
  \<^verbatim>\<open>new Transitionable(0)\<close> creates if it is reached; the size argument is not used by the
  source.\<close>

definition set_node :: "transform_lib \<Rightarrow> nat \<Rightarrow> nat \<Rightarrow> layout_set \<Rightarrow> node \<Rightarrow> node" where
  "set_node lib tnew fr s n =
     (let n1 = (case s_transition s of
                  None \<Rightarrow> n
                | Some tr \<Rightarrow>
                    (let m = n\<lparr>targetSet := Some s\<rparr>
                     in if transitionable m = None then m\<lparr>transitionable := Some tnew\<rparr>
                        else m));
          n2 = (if transitionable n1 = None then n1\<lparr>originalSet := Some s\<rparr> else n1)
      in n2\<lparr>lastSet := Some s, invalidated := True, specModified := True,
             removing := False,
             nd_spec := modifySpecFromSet lib fr (nd_spec n2) s,
             scrollLength := s_scrollLength s\<rparr>)"

text \<open>\<^verbatim>\<open>transition(transition, onComplete)\<close>: the node, and the transition object with
  its duration filled in.\<close>

definition transition_node ::
  "clock \<Rightarrow> nat \<Rightarrow> nat \<Rightarrow> transition \<Rightarrow> node \<Rightarrow> error + (node \<times> transition)" where
  "transition_node ck tnew fr tr n =
     (case (if transitionable n \<noteq> None then interpolateSet ck fr n
            else Inr (lastSet n, n)) of
        Inl e \<Rightarrow> Inl e
      | Inr (start, n1) \<Rightarrow>
          Inr (n1\<lparr>originalSet := start, transitionable := Some tnew\<rparr>,
               (case duration tr of
                  None \<Rightarrow> tr\<lparr>duration := Some 200\<rparr>
                | Some d \<Rightarrow> if d = 0 then tr\<lparr>duration := Some 200\<rparr> else tr)))"

text \<open>
  The three equal blocks of \<^verbatim>\<open>setSpec\<close> for align, origin and size. With an incoming
  array the inner test \<^verbatim>\<open>if (!spec.align)\<close> is never true, so no array is created: the two
  elements are written into the array the committed spec holds, and writing an element of
  \<^verbatim>\<open>undefined\<close> throws.
\<close>

definition write_pair ::
  "(nat \<times> cell list) option \<Rightarrow> (nat \<times> cell list) option
     \<Rightarrow> error + (nat \<times> cell list) option" where
  "write_pair incoming committed =
     (case incoming of
        None \<Rightarrow> Inr None
      | Some (q, ys) \<Rightarrow>
          (case committed of
             None \<Rightarrow> Inl TypeError
           | Some (r, xs) \<Rightarrow>
               Inr (Some (r, write_cell (write_cell xs 0 (read_cell ys 0)) 1
                                (read_cell ys 1)))))"

text \<open>The loop \<^verbatim>\<open>for (i = 0; i < 16; i++) this._spec.transform[i] = spec.transform[i]\<close>.\<close>

definition write_matrix ::
  "(nat \<times> cell list) option \<Rightarrow> (nat \<times> cell list) option
     \<Rightarrow> error + (nat \<times> cell list) option" where
  "write_matrix incoming committed =
     (case incoming of
        None \<Rightarrow> Inr None
      | Some (q, ys) \<Rightarrow>
          (case committed of
             None \<Rightarrow> Inl TypeError
           | Some (r, xs) \<Rightarrow>
               Inr (Some (r, foldl (\<lambda>zs i. write_cell zs i (read_cell ys i)) xs [0..<16]))))"

text \<open>\<^verbatim>\<open>setSpec(spec)\<close>, in the order of the source: align, origin, size, hide, transform,
  opacity.\<close>

definition setSpec :: "node_spec \<Rightarrow> node \<Rightarrow> error + node" where
  "setSpec sp n =
     (let c = nd_spec n in
      case write_pair (n_align sp) (n_align c) of
        Inl e \<Rightarrow> Inl e
      | Inr al \<Rightarrow>
          (case write_pair (n_origin sp) (n_origin c) of
             Inl e \<Rightarrow> Inl e
           | Inr og \<Rightarrow>
               (case write_pair (n_size sp) (n_size c) of
                  Inl e \<Rightarrow> Inl e
                | Inr sz \<Rightarrow>
                    (case write_matrix (n_transform sp) (n_transform c) of
                       Inl e \<Rightarrow> Inl e
                     | Inr tf \<Rightarrow>
                         Inr (n\<lparr>specModified := True,
                                nd_spec := c\<lparr>n_align := al, n_origin := og, n_size := sz,
                                           n_hide := n_hide sp, n_transform := tf,
                                           n_opacity := n_opacity sp\<rparr>\<rparr>)))))"

text \<open>\<^verbatim>\<open>remove(removeSpec)\<close>.\<close>

definition remove_node :: "node_spec option \<Rightarrow> node \<Rightarrow> node" where
  "remove_node removeSpec n = n\<lparr>removing := True\<rparr>"

text \<open>Reading the result of \<^verbatim>\<open>getSpec\<close>: the spec handed out, if any.\<close>

fun spec_of :: "spec_ref \<Rightarrow> node_spec" where
  "spec_of (Committed sp) = sp"
| "spec_of (Fresh sp) = sp"


definition shown_size :: "(error + spec_ref) \<times> node \<Rightarrow> cell list option" where
  "shown_size res =
     (case fst res of Inl e \<Rightarrow> None | Inr r \<Rightarrow> map_option snd (n_size (spec_of r)))"

section \<open>Auxiliary notions for the proofs about interpolation\<close>












text \<open>
  Example library, sets and clocks. The example library returns the translation matrix;
  for \<^verbatim>\<open>build\<close> this is the matrix of the arguments the examples use (no skew, no
  rotation, unit scale).
\<close>

definition plain_lib :: transform_lib where
  "plain_lib =
     \<lparr>lib_translate = (\<lambda>x y z. [Val 1, Val 0, Val 0, Val 0, Val 0, Val 1, Val 0, Val 0,
                                 Val 0, Val 0, Val 1, Val 0, x, y, z, Val 1]),
      lib_build = (\<lambda>tr sk sc ro. [Val 1, Val 0, Val 0, Val 0, Val 0, Val 1, Val 0, Val 0,
                                  Val 0, Val 0, Val 1, Val 0,
                                  read_cell tr 0, read_cell tr 1, read_cell tr 2, Val 1])\<rparr>"

definition no_set :: layout_set where
  "no_set = \<lparr>s_size = Undef, s_origin = Undef, s_align = Undef, s_skew = Undef,
              s_rotate = Undef, s_scale = Undef, s_translate = Undef, s_opacity = Undef,
              s_hide = None, s_transition = None, s_scrollLength = None\<rparr>"

definition start_set :: layout_set where
  "start_set = no_set\<lparr>s_size := Arr 30 [Val 100, Val 100]\<rparr>"

definition goal_set :: layout_set where
  "goal_set = no_set\<lparr>s_size := Arr 31 [Val 200, Val 200],
                      s_transition := Some \<lparr>duration = Some 300\<rparr>\<rparr>"

definition retarget :: layout_set where
  "retarget = no_set\<lparr>s_size := Arr 32 [Val 400, Val 400],
                      s_transition := Some \<lparr>duration = Some 300\<rparr>\<rparr>"

definition tweening :: node where
  "tweening = set_node plain_lib 1 44 goal_set
                (set_node plain_lib 0 40 start_set (LayoutNode (Some 7) None))"

definition half :: clock where "half = \<lparr>tweenValue = 1 / 2, isActive = True\<rparr>"

text \<open>Example nodes and specs.\<close>

definition laid :: node where
  "laid = LayoutNode (Some 7)
            (Some (empty_spec\<lparr>n_transform := Some (20, map Val (matrix_at 0))\<rparr>))"

definition moved :: node_spec where
  "moved = empty_spec\<lparr>n_transform := Some (21, map Val (matrix_at 50))\<rparr>"

section \<open>Properties of the physics offset model\<close>

lemma reached_simps:
  "reached FIRST FIRST" "reached BOTH FIRST" "reached BOTH LAST" "reached LAST LAST"
  "\<not> reached FIRST LAST" "\<not> reached LAST FIRST" "\<not> reached NONE FIRST" "\<not> reached NONE LAST"
  by (simp_all add: reached_def FIRST_def LAST_def BOTH_def NONE_def)

lemma wheel_updates_eq:
  "wheel_updates dir es s =
     Some (s\<lparr>scrollDelta := scrollDelta s + sum_list (map (\<lambda>e. pick dir (ev_delta e)) es),
             velocity := (if es = [] then velocity s else 0)\<rparr>)"
  by (induction es arbitrary: s) (auto simp: moveUpdate_def algebra_simps)

text \<open>
  C1, as stated, fails: with no wheel delta pending, \<^verbatim>\<open>_integrateScrollDelta\<close> returns early
  and leaves the particle where it was, also when FIRST or LAST is reached. At FIRST with the
  particle at 5 the position stays 5; at LAST with \<^verbatim>\<open>lastScrollOffset = 0\<close> and the particle at
  -10 the position stays below \<^verbatim>\<open>lastScrollOffset\<close>.
\<close>

theorem integrate_no_delta_counterexample:
  "reached (boundsReached at_first) FIRST
   \<and> position (snd (integrateScrollDelta (1 / 5) at_first)) = 5
   \<and> reached (boundsReached at_last) LAST \<and> \<not> reached (boundsReached at_last) FIRST
   \<and> position (snd (integrateScrollDelta (1 / 5) at_last)) < lastScrollOffset at_last"
  by (simp add: integrateScrollDelta_def at_first_def at_last_def reached_simps)

text \<open>
  C1, amended: when a wheel delta is pending (\<^verbatim>\<open>scrollDelta\<close> is not 0), after
  \<^verbatim>\<open>_integrateScrollDelta\<close> the particle position is exactly 0 if \<^verbatim>\<open>boundsReached\<close> includes
  FIRST, and is at least \<^verbatim>\<open>lastScrollOffset\<close> if it includes LAST and not FIRST; for every
  prior particle position, \<^verbatim>\<open>moveOffset\<close> and non-zero pending delta.
\<close>

theorem integrate_clamps_at_bounds:
  assumes "scrollDelta s \<noteq> 0" and "r \<noteq> 0"
  shows "(reached (boundsReached s) FIRST \<longrightarrow> position (snd (integrateScrollDelta r s)) = 0)
       \<and> (reached (boundsReached s) LAST \<and> \<not> reached (boundsReached s) FIRST
            \<longrightarrow> lastScrollOffset s \<le> position (snd (integrateScrollDelta r s)))"
  using assms by (simp add: integrateScrollDelta_def Let_def)

theorem integrate_clamps_at_bounds_witness:
  "scrollDelta (at_first\<lparr>scrollDelta := 50\<rparr>) \<noteq> 0
   \<and> reached (boundsReached (at_first\<lparr>scrollDelta := 50\<rparr>)) FIRST
   \<and> position (snd (integrateScrollDelta (1 / 5) (at_first\<lparr>scrollDelta := 50\<rparr>))) = 0
   \<and> scrollDelta (at_last\<lparr>scrollDelta := - 50\<rparr>) \<noteq> 0
   \<and> reached (boundsReached (at_last\<lparr>scrollDelta := - 50\<rparr>)) LAST
   \<and> \<not> reached (boundsReached (at_last\<lparr>scrollDelta := - 50\<rparr>)) FIRST
   \<and> lastScrollOffset (at_last\<lparr>scrollDelta := - 50\<rparr>)
       \<le> position (snd (integrateScrollDelta (1 / 5) (at_last\<lparr>scrollDelta := - 50\<rparr>)))"
  using integrate_clamps_at_bounds [of "at_first\<lparr>scrollDelta := 50\<rparr>" "1 / 5"]
        integrate_clamps_at_bounds [of "at_last\<lparr>scrollDelta := - 50\<rparr>" "1 / 5"]
  by (simp add: at_first_def at_last_def reached_simps)

text \<open>
  C2, as stated, fails: \<^verbatim>\<open>_getScrollOffset\<close> reads the particle through
  \<^verbatim>\<open>_getParticlePosition\<close>, which rounds it to a multiple of \<^verbatim>\<open>particleRounding\<close>. With the
  particle at 0.1, the default rounding 0.2 and one wheel update of delta 1, the effective
  offset is 1.2, not 0.1 + 1.
\<close>

theorem wheel_offset_counterexample:
  "boundsReached free_scroll = NONE \<and> moveOffset free_scroll = 0
   \<and> scrollDelta free_scroll = 0
   \<and> wheel_updates Y [wheel 1] free_scroll = Some (free_scroll\<lparr>scrollDelta := 1\<rparr>)
   \<and> fst (getScrollOffset (1 / 5) (free_scroll\<lparr>scrollDelta := 1\<rparr>)) = 6 / 5
   \<and> fst (getScrollOffset (1 / 5) (free_scroll\<lparr>scrollDelta := 1\<rparr>))
       \<noteq> position free_scroll + 1"
  by (simp add: wheel_updates_eq getScrollOffset_def getParticlePosition_def free_scroll_def
      wheel_def reached_simps round_def)

text \<open>
  C2, amended: for every sequence of wheel update events with deltas d1..dn delivered while
  no boundary is reached and no drag is in progress, \<^verbatim>\<open>_getScrollOffset\<close> equals the rounded
  particle position (as \<^verbatim>\<open>_getParticlePosition\<close> reads it) plus the wheel delta that was
  pending before the events plus d1 + ... + dn; the events leave the particle position and
  \<^verbatim>\<open>moveOffset\<close> as they were.
\<close>

theorem wheel_offset_accumulates:
  assumes "boundsReached s = NONE" and "moveOffset s = 0" and "r \<noteq> 0"
  shows "\<exists>s1. wheel_updates dir es s = Some s1
          \<and> position s1 = position s
          \<and> fst (getScrollOffset r s1)
              = getParticlePosition r s + scrollDelta s
                + sum_list (map (\<lambda>e. pick dir (ev_delta e)) es)"
  using assms
  by (simp add: wheel_updates_eq getScrollOffset_def getParticlePosition_def reached_simps)

theorem wheel_offset_accumulates_witness:
  "boundsReached free_scroll = NONE \<and> moveOffset free_scroll = 0 \<and> (1 / 5 :: real) \<noteq> 0
   \<and> wheel_updates Y [wheel 1, wheel (- 3)] free_scroll
       = Some (free_scroll\<lparr>scrollDelta := - 2\<rparr>)
   \<and> position (free_scroll\<lparr>scrollDelta := - 2\<rparr>) = 1 / 10
   \<and> fst (getScrollOffset (1 / 5) (free_scroll\<lparr>scrollDelta := - 2\<rparr>)) = - 9 / 5"
  using wheel_offset_accumulates [of free_scroll "1 / 5" Y "[wheel 1, wheel (- 3)]"]
  by (simp add: free_scroll_def wheel_def getParticlePosition_def round_def moveUpdate_def)



section \<open>Properties of normalization\<close>

declare norm_next.simps [simp del]

lemma lookup_item:
  "lookupSpecByViewSequence specs its (Some c) = Some x \<Longrightarrow> \<exists>rn. item_at its c = Some rn"
  by (auto simp: lookupSpecByViewSequence_def split: option.splits)

lemma norm_next_go:
  "norm_next specs its dir c pos off =
     (case go_next specs its dir c of
        None \<Rightarrow> Inr (c, pos, off)
      | Some (Inl e) \<Rightarrow> Inl e
      | Some (Inr z) \<Rightarrow> norm_next specs its dir (Suc c) (pos + z) (off + z))"
  by (subst norm_next.simps) (auto simp: go_next_def split: option.splits sum.splits)

lemma go_next_passed: "go_next specs its dir c = Some (Inr z) \<Longrightarrow> passed specs its dir c"
  by (auto simp: go_next_def passed_def split: option.splits sum.splits if_splits)

lemma shown_go_next: "shown specs its dir c \<Longrightarrow> go_next specs its dir c = None"
  by (auto simp: go_next_def shown_def split: option.splits sum.splits if_splits)

lemma norm_next_halt:
  "norm_next specs its dir c pos off = Inr (c', pos', off') \<Longrightarrow>
   go_next specs its dir c' = None \<and> (c' = c \<or> (\<exists>q. c' = Suc q \<and> passed specs its dir q))"
proof (induction specs its dir c pos off rule: norm_next.induct)
  case (1 specs its dir c pos off)
  show ?case
  proof (cases "go_next specs its dir c")
    case None
    with "1.prems" show ?thesis by (simp add: norm_next_go)
  next
    case (Some r)
    show ?thesis
    proof (cases r)
      case (Inl e)
      with Some "1.prems" show ?thesis by (simp add: norm_next_go)
    next
      case (Inr z)
      with Some "1.prems" have
        rec: "norm_next specs its dir (Suc c) (pos + z) (off + z) = Inr (c', pos', off')"
        by (simp add: norm_next_go)
      from Some Inr obtain rn i sp a where
        h: "Suc c < length its" "its ! Suc c = Some rn"
           "lookupSpecByViewSequence specs its (Some c) = Some (i, sp)"
           "\<not> trueSizeRequested sp" "edges dir sp = Inr (a, z)" "\<not> a + z \<ge> 0"
        by (auto simp: go_next_def split: option.splits sum.splits if_splits)
      from "1.IH"[OF h(1) h(2) h(3) _ h(4) h(5) _ h(6) rec]
      have "go_next specs its dir c' = None
            \<and> (c' = Suc c \<or> (\<exists>q. c' = Suc q \<and> passed specs its dir q))" by simp
      moreover have "passed specs its dir c" using Some Inr by (simp add: go_next_passed)
      ultimately show ?thesis by auto
    qed
  qed
qed

lemma go_next_None: "go_next specs its dir c = None \<Longrightarrow> norm_next specs its dir c q w = Inr (c, q, w)"
  by (simp add: norm_next_go)

lemma passed_norm_prev: "passed specs its dir q \<Longrightarrow> norm_prev specs its dir (Suc q) p w = Inr (Suc q, p, w)"
  by (auto simp: passed_def lookupSpecByViewSequence_def split: option.splits sum.splits)

lemma norm_prev_stop:
  "norm_prev specs its dir c pos off = Inr (c', pos', off') \<Longrightarrow>
   norm_prev specs its dir c' q w = Inr (c', q, w)"
  by (induction specs its dir c pos off rule: norm_prev.induct)
     (auto split: option.splits if_splits sum.splits)

lemma norm_prev_shown:
  "norm_prev specs its dir c pos off = Inr (c', pos', off') \<Longrightarrow> c' = c \<or> shown specs its dir c'"
proof (induction specs its dir c pos off rule: norm_prev.induct)
  case (1 specs its dir pos off)
  then show ?case by simp
next
  case (2 specs its dir p pos off)
  show ?case
  proof (cases "c' = Suc p")
    case True then show ?thesis by simp
  next
    case False
    with "2.prems" obtain rn i sp a z where
      h: "item_at its p = Some rn" "lookupSpecByViewSequence specs its (Some p) = Some (i, sp)"
         "\<not> trueSizeRequested sp" "edges dir sp = Inr (a, z)" "\<not> a + z < 0"
         "norm_prev specs its dir p (pos - z) (off - z) = Inr (c', pos', off')"
      by (auto split: option.splits if_splits sum.splits)
    from "2.IH"[OF h(1) h(2) _ h(3) h(4) _ h(5) h(6)]
    have "c' = p \<or> shown specs its dir c'" by simp
    moreover have "shown specs its dir p" using h by (simp add: shown_def)
    ultimately show ?thesis by auto
  qed
qed

lemma norm_prev_same:
  "norm_prev specs its dir c pos off = Inr (c', pos', off') \<Longrightarrow>
   c' \<le> c \<and> (c' = c \<longrightarrow> pos' = pos \<and> off' = off)"
  by (induction specs its dir c pos off rule: norm_prev.induct)
     (fastforce split: option.splits if_splits sum.splits)+

lemma norm_next_same:
  "norm_next specs its dir c pos off = Inr (c', pos', off') \<Longrightarrow>
   c \<le> c' \<and> (c' = c \<longrightarrow> pos' = pos \<and> off' = off)"
proof (induction specs its dir c pos off rule: norm_next.induct)
  case (1 specs its dir c pos off)
  show ?case
  proof (cases "go_next specs its dir c")
    case None
    with "1.prems" show ?thesis by (simp add: norm_next_go)
  next
    case (Some r)
    show ?thesis
    proof (cases r)
      case (Inl e)
      with Some "1.prems" show ?thesis by (simp add: norm_next_go)
    next
      case (Inr z)
      with Some "1.prems" have
        rec: "norm_next specs its dir (Suc c) (pos + z) (off + z) = Inr (c', pos', off')"
        by (simp add: norm_next_go)
      from Some Inr obtain rn i sp a where
        h: "Suc c < length its" "its ! Suc c = Some rn"
           "lookupSpecByViewSequence specs its (Some c) = Some (i, sp)"
           "\<not> trueSizeRequested sp" "edges dir sp = Inr (a, z)" "\<not> a + z \<ge> 0"
        by (auto simp: go_next_def split: option.splits sum.splits if_splits)
      from "1.IH"[OF h(1) h(2) h(3) _ h(4) h(5) _ h(6) rec]
      have "Suc c \<le> c'" by simp
      then show ?thesis by simp
    qed
  qed
qed

lemma commit_norm_same: "commit_norm v (c, pos, off) = (off1, v1) \<Longrightarrow>
  commit_norm v1 (c, pos, off1) = (off1, v1)"
  by (auto simp: commit_norm_def)

lemma commit_norm_fields:
  "commit_norm v (c, pos, off) = (off1, v1) \<Longrightarrow>
   off1 = off \<and> viewSequence v1 = Some c \<and> position (scroll v1) = pos
   \<and> target v1 = target v \<and> items v1 = items v \<and> direction v1 = direction v"
  by (auto simp: commit_norm_def)

lemma shown_target: "shown specs its dir c \<Longrightarrow> specs \<noteq> []"
  by (auto simp: shown_def lookupSpecByViewSequence_def split: option.splits)

text \<open>
  C6, as stated, fails: the backward walk of a first invocation (offset at or above 0) can
  leave the offset below 0, and the second invocation then reads the transform of the last
  spec of the window, which the first never looked at. With a last spec that has no
  transform (a node whose set has no translate) the second invocation throws a TypeError.
  A spec that lacks the size element of the scroll axis breaks the claim in another way:
  the first invocation promotes its item with NaN as the new offset, and the second one,
  for which NaN is not at or above 0, walks forward and moves the anchor again.
\<close>

theorem normalize_twice_counterexample:
  "normalizeScrollOffset (150, 150) 0 bare_last
     = Inr (- 100, bare_last\<lparr>viewSequence := Some 0, scroll := rest\<lparr>position := - 100\<rparr>\<rparr>)
   \<and> normalizeScrollOffset (150, 150) (- 100)
         (bare_last\<lparr>viewSequence := Some 0, scroll := rest\<lparr>position := - 100\<rparr>\<rparr>)
       = Inl TypeError"
  by (simp add: normalizeScrollOffset_def bare_last_def spec_at_def matrix_at_def rest_def
      commit_norm_def lookupSpecByViewSequence_def item_at_def edges_def)

lemma normalize_twice:
  assumes run: "normalizeScrollOffset sz off v = Inr (off1, v1)"
    and lastok: "target v \<noteq> [] \<longrightarrow> (\<exists>a z. edges (direction v) (last (target v)) = Inr (a, z))"
  shows "normalizeScrollOffset sz off1 v1 = Inr (off1, v1)"
proof (cases "viewSequence v")
  case None
  with run show ?thesis by (auto simp: normalizeScrollOffset_def)
next
  case (Some c)
  show ?thesis
  proof (cases "off \<ge> 0")
    case True
    with Some run obtain c' pos' off' where
      np: "norm_prev (target v) (items v) (direction v) c (position (scroll v)) off = Inr (c', pos', off')"
      and cm: "commit_norm v (c', pos', off') = (off1, v1)"
      by (auto simp: normalizeScrollOffset_def split: sum.splits)
    note f = commit_norm_fields[OF cm]
    show ?thesis
    proof (cases "off1 \<ge> 0")
      case True
      then show ?thesis
        using f norm_prev_stop[OF np, of pos' off1] commit_norm_same[OF cm]
        by (simp add: normalizeScrollOffset_def)
    next
      case False
      with f \<open>off \<ge> 0\<close> norm_prev_same[OF np] norm_prev_shown[OF np]
      have sh: "shown (target v) (items v) (direction v) c'" by auto
      then have ne: "target v \<noteq> []" by (rule shown_target)
      with lastok obtain a z where e: "edges (direction v) (last (target v)) = Inr (a, z)" by auto
      from ne obtain x xs where tv: "target v = x # xs" by (cases "target v") auto
      have nn: "norm_next (target v) (items v) (direction v) c' pos' off1 = Inr (c', pos', off1)"
        using sh by (simp add: go_next_None shown_go_next)
      show ?thesis
        using False f e nn commit_norm_same[OF cm] tv
        by (simp add: normalizeScrollOffset_def)
    qed
  next
    case neg: False
    with Some run obtain x xs where tv: "target v = x # xs"
      by (cases "target v") (auto simp: normalizeScrollOffset_def)
    with Some run neg obtain a z where e: "edges (direction v) (last (target v)) = Inr (a, z)"
      by (auto simp: normalizeScrollOffset_def split: sum.splits)
    show ?thesis
    proof (cases "a + z < pick (direction v) (Vector (fst sz) (snd sz))")
      case True
      with Some run neg tv e have "off1 = off" "v1 = v"
        by (auto simp: normalizeScrollOffset_def)
      with run show ?thesis by simp
    next
      case False
      with Some run neg tv e obtain c' pos' off' where
        nn: "norm_next (target v) (items v) (direction v) c (position (scroll v)) off = Inr (c', pos', off')"
        and cm: "commit_norm v (c', pos', off') = (off1, v1)"
        by (auto simp: normalizeScrollOffset_def split: sum.splits)
      note f = commit_norm_fields[OF cm]
      note h = norm_next_halt[OF nn]
      show ?thesis
      proof (cases "off1 \<ge> 0")
        case True
        with f neg norm_next_same[OF nn] h obtain q where
          q: "c' = Suc q" "passed (target v) (items v) (direction v) q" by auto
        show ?thesis
          using True f q passed_norm_prev[OF q(2), of pos' off1] commit_norm_same[OF cm]
          by (simp add: normalizeScrollOffset_def)
      next
        case off1neg: False
        have "norm_next (target v) (items v) (direction v) c' pos' off1 = Inr (c', pos', off1)"
          using h by (simp add: go_next_None)
        then show ?thesis
          using off1neg False f e tv commit_norm_same[OF cm]
          by (simp add: normalizeScrollOffset_def)
      qed
    qed
  qed
qed

lemma complete_edges: "complete dir sp \<Longrightarrow> \<exists>a z. edges dir sp = Inr (a, z)"
  by (auto simp: complete_def edges_def split: option.splits)

text \<open>
  C6, amended: normalization is idempotent on every window in which each spec has a
  transform and a size with the element that the scroll axis reads: if an invocation
  returns (with such a window it throws only when the window is empty and the offset is
  below 0), a second invocation with the returned offset, the same window and the state the
  first one left returns that offset unchanged and leaves the anchor and the particle where
  they were.
\<close>

theorem normalize_idempotent:
  assumes run: "normalizeScrollOffset sz off v = Inr (off1, v1)"
    and whole: "list_all (complete (direction v)) (target v)"
  shows "normalizeScrollOffset sz off1 v1 = Inr (off1, v1)"
proof -
  have "target v \<noteq> [] \<longrightarrow> (\<exists>a z. edges (direction v) (last (target v)) = Inr (a, z))"
    using whole by (auto simp: list_all_iff intro!: complete_edges)
  with run show ?thesis by (rule normalize_twice)
qed

theorem normalize_idempotent_witness:
  "normalizeScrollOffset (50, 50) (- 120) two_items
     = Inr (- 20, two_items\<lparr>viewSequence := Some 1, scroll := rest\<lparr>position := 100\<rparr>\<rparr>)
   \<and> list_all (complete (direction two_items)) (target two_items)
   \<and> normalizeScrollOffset (50, 50) (- 20)
         (two_items\<lparr>viewSequence := Some 1, scroll := rest\<lparr>position := 100\<rparr>\<rparr>)
       = Inr (- 20, two_items\<lparr>viewSequence := Some 1, scroll := rest\<lparr>position := 100\<rparr>\<rparr>)"
proof -
  have run: "normalizeScrollOffset (50, 50) (- 120) two_items
     = Inr (- 20, two_items\<lparr>viewSequence := Some 1, scroll := rest\<lparr>position := 100\<rparr>\<rparr>)"
    by (simp add: normalizeScrollOffset_def two_items_def spec_at_def matrix_at_def rest_def
        commit_norm_def lookupSpecByViewSequence_def item_at_def edges_def norm_next_go
        go_next_def)
  have ok: "list_all (complete (direction two_items)) (target two_items)"
    by (simp add: two_items_def spec_at_def matrix_at_def complete_def)
  from normalize_idempotent [OF run ok] run ok show ?thesis by simp
qed

lemma norm_prev_empty: "norm_prev [] its dir c pos off = Inr (c, pos, off)"
  by (cases c) (auto simp: lookupSpecByViewSequence_def split: option.splits)

lemma commit_norm_id:
  "viewSequence v = Some c \<Longrightarrow> commit_norm v (c, position (scroll v), off) = (off, v)"
  by (simp add: commit_norm_def)

text \<open>
  C7, as stated, fails twice. An anchor cursor whose current item is null is not treated as
  a missing anchor when the offset is at or above 0: the backward walk starts at its
  previous place and promotes it when its spec is visible (offset 0 becomes -100 and the
  anchor moves). And with an anchor, an empty window and an offset below 0 the source
  reads the transform of \<^verbatim>\<open>target[-1]\<close> and throws a TypeError.
\<close>

theorem normalize_degenerate_counterexample:
  "viewSequence stale_anchor = Some 1 \<and> item_at (items stale_anchor) 1 = None
   \<and> normalizeScrollOffset (150, 150) 0 stale_anchor
       = Inr (- 100, stale_anchor\<lparr>viewSequence := Some 0, scroll := rest\<lparr>position := - 100\<rparr>\<rparr>)
   \<and> target empty_window = []
   \<and> normalizeScrollOffset (150, 150) (- 1) empty_window = Inl TypeError"
  by (simp add: normalizeScrollOffset_def stale_anchor_def empty_window_def spec_at_def
      matrix_at_def rest_def commit_norm_def lookupSpecByViewSequence_def item_at_def edges_def)

text \<open>
  C7, amended: \<^verbatim>\<open>_normalizeScrollOffset\<close> returns the input offset unchanged and leaves the
  anchor and the particle unmodified (i) with a null anchor cursor, for every offset;
  (ii) with an empty spec window, for every offset at or above 0; (iii) with an anchor
  cursor whose current item is null, for every offset below 0, when the window is not empty
  and its last spec has a transform and a size.
\<close>

theorem normalize_degenerate_unchanged:
  "(viewSequence v = None \<longrightarrow> normalizeScrollOffset sz off v = Inr (off, v))
   \<and> (target v = [] \<and> off \<ge> 0 \<longrightarrow> normalizeScrollOffset sz off v = Inr (off, v))
   \<and> (viewSequence v = Some c \<and> item_at (items v) c = None \<and> off < 0 \<and> target v \<noteq> []
        \<and> (\<exists>a z. edges (direction v) (last (target v)) = Inr (a, z))
       \<longrightarrow> normalizeScrollOffset sz off v = Inr (off, v))"
proof (intro conjI impI)
  assume "viewSequence v = None"
  then show "normalizeScrollOffset sz off v = Inr (off, v)"
    by (simp add: normalizeScrollOffset_def)
next
  assume "target v = [] \<and> off \<ge> 0"
  then show "normalizeScrollOffset sz off v = Inr (off, v)"
    by (cases "viewSequence v")
       (simp_all add: normalizeScrollOffset_def norm_prev_empty commit_norm_id)
next
  assume h: "viewSequence v = Some c \<and> item_at (items v) c = None \<and> off < 0 \<and> target v \<noteq> []
        \<and> (\<exists>a z. edges (direction v) (last (target v)) = Inr (a, z))"
  then obtain a z x xs where e: "edges (direction v) (last (target v)) = Inr (a, z)"
    and tv: "target v = x # xs"
    by (cases "target v") auto
  have "go_next (target v) (items v) (direction v) c = None"
    using h by (simp add: go_next_def lookupSpecByViewSequence_def split: option.splits)
  then have "norm_next (target v) (items v) (direction v) c (position (scroll v)) off
               = Inr (c, position (scroll v), off)"
    by (rule go_next_None)
  then show "normalizeScrollOffset sz off v = Inr (off, v)"
    using h e tv by (simp add: normalizeScrollOffset_def commit_norm_id)
qed

theorem normalize_degenerate_unchanged_witness:
  "viewSequence (at_top\<lparr>viewSequence := None\<rparr>) = None
   \<and> normalizeScrollOffset (150, 150) (- 7) (at_top\<lparr>viewSequence := None\<rparr>)
       = Inr (- 7, at_top\<lparr>viewSequence := None\<rparr>)
   \<and> target empty_window = [] \<and> (3::real) \<ge> 0
   \<and> normalizeScrollOffset (150, 150) 3 empty_window = Inr (3, empty_window)
   \<and> viewSequence stale_anchor = Some 1 \<and> item_at (items stale_anchor) 1 = None
   \<and> (- 7 :: real) < 0 \<and> target stale_anchor \<noteq> []
   \<and> (\<exists>a z. edges (direction stale_anchor) (last (target stale_anchor)) = Inr (a, z))
   \<and> normalizeScrollOffset (150, 150) (- 7) stale_anchor = Inr (- 7, stale_anchor)"
  using normalize_degenerate_unchanged [of "at_top\<lparr>viewSequence := None\<rparr>" "(150, 150)" "- 7" 0]
        normalize_degenerate_unchanged [of empty_window "(150, 150)" 3 0]
        normalize_degenerate_unchanged [of stale_anchor "(150, 150)" "- 7" 1]
  by (simp add: at_top_def empty_window_def stale_anchor_def item_at_def edges_def spec_at_def
      matrix_at_def)

section \<open>Properties of bounds detection\<close>




section \<open>Properties of the layout node\<close>

lemma write_cell_run:
  "foldl (\<lambda>zs i. write_cell zs i (f i)) xs [0..<k] = map f [0..<k] @ drop k xs"
proof (induction k)
  case 0 show ?case by simp
next
  case (Suc k)
  have "foldl (\<lambda>zs i. write_cell zs i (f i)) xs [0..<Suc k]
          = write_cell (map f [0..<k] @ drop k xs) k (f k)"
    by (simp add: Suc)
  also have "\<dots> = map f [0..<Suc k] @ drop (Suc k) xs"
  proof (cases "k < length xs")
    case True
    then have d: "drop k xs = xs ! k # drop (Suc k) xs" by (simp add: Cons_nth_drop_Suc)
    show ?thesis using True by (simp add: write_cell_def d list_update_append)
  next
    case False
    then show ?thesis by (simp add: write_cell_def)
  qed
  finally show ?case .
qed

lemma write_matrix_eq:
  "write_matrix (Some (q, ys)) (Some (r, xs))
     = Inr (Some (r, map (read_cell ys) [0..<16] @ drop 16 xs))"
  "write_matrix (Some (q, ys)) None = Inl TypeError"
  "write_matrix None c = Inr None"
  by (simp_all add: write_matrix_def write_cell_run)

lemma upt16: "[0..<16] = [0, 1, 2, 3, 4, 5, 6, 7, 8, 9, 10, 11, 12, 13, 14, 15]"
  by (simp add: upt_rec)

text \<open>
  C9: \<^verbatim>\<open>setSpec\<close> with a spec that contains a transform never creates a transform array.
  A call that returns found a transform array in the committed spec and leaves the same
  array (same identity) there, its first 16 elements overwritten by those of the incoming
  transform and the rest kept; with no transform array in the committed spec, in
  particular on a node constructed without an initial spec, the call throws. With no
  transform in the incoming spec, a call that returns leaves the committed transform
  \<^verbatim>\<open>undefined\<close>.
\<close>

theorem setSpec_writes_in_place:
  "(n_transform sp = Some (q, ys) \<and> setSpec sp n = Inr n' \<longrightarrow>
      (\<exists>r xs. n_transform (nd_spec n) = Some (r, xs)
        \<and> n_transform (nd_spec n')
            = Some (r, map (read_cell ys) [0..<16] @ drop 16 xs)))
   \<and> (n_transform sp = Some (q, ys) \<and> n_transform (nd_spec n) = None
        \<longrightarrow> setSpec sp n = Inl TypeError)
   \<and> (n_transform sp = Some (q, ys) \<longrightarrow> setSpec sp (LayoutNode rn None) = Inl TypeError)
   \<and> (n_transform sp = None \<and> setSpec sp n = Inr n' \<longrightarrow> n_transform (nd_spec n') = None)"
  by (auto simp: setSpec_def write_matrix_def write_pair_def write_cell_run Let_def
      LayoutNode_def empty_spec_def split: sum.splits option.splits)

theorem setSpec_writes_in_place_witness:
  "n_transform moved = Some (21, map Val (matrix_at 50))
   \<and> setSpec moved laid
       = Inr (laid\<lparr>nd_spec := (nd_spec laid)\<lparr>n_transform :=
                                   Some (20, map Val (matrix_at 50))\<rparr>\<rparr>)
   \<and> n_transform (nd_spec laid) = Some (20, map Val (matrix_at 0))
   \<and> n_transform (nd_spec (LayoutNode (Some 7) None)) = None
   \<and> setSpec moved (LayoutNode (Some 7) None) = Inl TypeError
   \<and> n_transform empty_spec = None
   \<and> setSpec empty_spec laid = Inr (laid\<lparr>nd_spec := (nd_spec laid)\<lparr>n_transform := None\<rparr>\<rparr>)"
  using setSpec_writes_in_place [of moved 21 "map Val (matrix_at 50)" laid
       "laid\<lparr>nd_spec := (nd_spec laid)\<lparr>n_transform := Some (20, map Val (matrix_at 50))\<rparr>\<rparr>"
       "Some 7"]
     setSpec_writes_in_place [of empty_spec 0 "[]" laid
       "laid\<lparr>nd_spec := (nd_spec laid)\<lparr>n_transform := None\<rparr>\<rparr>" None]
  by (simp add: moved_def laid_def LayoutNode_def empty_spec_def setSpec_def write_pair_def
      write_matrix_eq matrix_at_def upt16 read_cell_def Let_def)

text \<open>
  C10: \<^verbatim>\<open>remove(removeSpec)\<close> sets \<^verbatim>\<open>_removing\<close> and nothing else: the committed spec, the
  transitionable and the recorded sets, the invalidation flag, the modification flag and the
  render node are as before, and the result does not depend on the argument.
\<close>

theorem remove_only_marks:
  "removing (remove_node rs n)
   \<and> nd_spec (remove_node rs n) = nd_spec n
   \<and> transitionable (remove_node rs n) = transitionable n
   \<and> originalSet (remove_node rs n) = originalSet n
   \<and> lastSet (remove_node rs n) = lastSet n
   \<and> targetSet (remove_node rs n) = targetSet n
   \<and> invalidated (remove_node rs n) = invalidated n
   \<and> specModified (remove_node rs n) = specModified n
   \<and> nd_renderNode (remove_node rs n) = nd_renderNode n
   \<and> scrollLength (remove_node rs n) = scrollLength n
   \<and> remove_node rs n = remove_node rs' n"
  by (simp add: remove_node_def)

section \<open>Properties of interpolation\<close>

lemmas ev = getSpec_def getFinalSpec_def interpolateSet_def interpolate_sets_def
  interpolate_property_def modifySpecFromSet_def with_defaults_def or_default_def
  set_node_def LayoutNode_def empty_spec_def no_set_def start_set_def goal_set_def
  retarget_def tweening_def plain_lib_def hidden_def default_size_def default_origin_def
  default_align_def default_skew_def default_rotate_def default_scale_def
  default_translate_def default_opacity_def read_cell_def Let_def shown_size_def

lemma upt2: "[0..<2] = [0, 1]" "[0..<3] = [0, 1, 2]"
  by (simp_all add: upt_rec)

text \<open>
  C3, as stated, fails: \<^verbatim>\<open>set\<close> creates a transitionable only when the node has none, and
  records a start set only when the node has none. Called with a transition while an
  interpolation is running, it replaces the target and nothing else, so the read right
  after the call interpolates from the original start to the new target at the unchanged
  progress. From 100 towards 200 at progress 1/2 the size reads 150; after retargeting to
  400 it reads 250.
\<close>

theorem set_retarget_counterexample:
  "transitionable tweening = Some 1
   \<and> s_transition retarget = Some \<lparr>duration = Some 300\<rparr>
   \<and> shown_size (getSpec plain_lib half 100 tweening) = Some [Val 150, Val 150]
   \<and> shown_size (getSpec plain_lib half 100
        (set_node plain_lib 2 50 retarget (snd (getSpec plain_lib half 100 tweening))))
       = Some [Val 250, Val 250]"
  by (simp add: ev half_def upt2)

text \<open>
  C3, amended: when \<^verbatim>\<open>set\<close> is called with a transition on a node whose interpolation is
  already active, the running transitionable and the recorded start set are kept, and the
  new set becomes the target (\<^verbatim>\<open>_lastSet\<close> and \<^verbatim>\<open>_targetSet\<close>). \<^verbatim>\<open>_interpolateSet\<close> after the call
  returns the interpolation from the original start set (not from the current interpolated
  value) to the new set at the progress the transitionable gives, and the new set itself
  at progress 1 or when no start set is recorded. Taking the current interpolated set as
  the new start is what \<^verbatim>\<open>transition\<close> does: after it, on a node with a transitionable,
  \<^verbatim>\<open>_originalSet\<close> is what \<^verbatim>\<open>_interpolateSet\<close> returned and the transitionable is a new one.
\<close>

theorem set_keeps_start:
  assumes "transitionable n = Some tr" and "s_transition s = Some tn"
  shows "transitionable (set_node lib tnew fr s n) = Some tr
       \<and> originalSet (set_node lib tnew fr s n) = originalSet n
       \<and> lastSet (set_node lib tnew fr s n) = Some s
       \<and> targetSet (set_node lib tnew fr s n) = Some s
       \<and> map_sum id fst (interpolateSet ck fr' (set_node lib tnew fr s n))
           = (case originalSet n of
                None \<Rightarrow> Inr (Some s)
              | Some a \<Rightarrow>
                  if tweenValue ck = 1 then Inr (Some s)
                  else map_sum id (\<lambda>r. Some (fst r))
                         (interpolate_sets (tweenValue ck) fr' a s))
       \<and> (\<forall>cur n1. interpolateSet ck fr' n = Inr (cur, n1) \<longrightarrow>
             map_sum id (\<lambda>r. (originalSet (fst r), transitionable (fst r)))
               (transition_node ck tnew fr' tn n) = Inr (cur, Some tnew))"
  using assms
  by (auto simp: set_node_def interpolateSet_def transition_node_def Let_def
      split: option.splits sum.splits)

theorem set_keeps_start_witness:
  "transitionable tweening = Some 1
   \<and> s_transition retarget = Some \<lparr>duration = Some 300\<rparr>
   \<and> transitionable (set_node plain_lib 2 50 retarget tweening) = Some 1
   \<and> originalSet (set_node plain_lib 2 50 retarget tweening) = Some start_set
   \<and> lastSet (set_node plain_lib 2 50 retarget tweening) = Some retarget
   \<and> map_sum id (\<lambda>r. map_option s_size (fst r))
        (interpolateSet half 100 (set_node plain_lib 2 50 retarget tweening))
       = Inr (Some (Arr 100 [Val 250, Val 250]))
   \<and> map_sum id (\<lambda>r. map_option s_size (fst r)) (interpolateSet half 100 tweening)
       = Inr (Some (Arr 100 [Val 150, Val 150]))
   \<and> map_sum id (\<lambda>r. (map_option s_size (originalSet (fst r)), transitionable (fst r)))
        (transition_node half 3 100 \<lparr>duration = Some 300\<rparr> tweening)
       = Inr (Some (Arr 100 [Val 150, Val 150]), Some 3)"
  using set_keeps_start [where n = tweening and tr = 1 and s = retarget
          and tn = "\<lparr>duration = Some 300\<rparr>" and lib = plain_lib and tnew = 2 and fr = 50
          and ck = half and fr' = 100]
  by (simp add: ev half_def upt2 transition_node_def)











end
